theory Spec2Isabelle
  imports Complex_Main "HOL-Library.Word" "HOL-Library.Signed_Division"
begin

text \<open>
  The program \<open>ssim.go\<close> re-encodes an image as JPEG at the lowest quality whose
  structural similarity to the source stays above a target: a similarity metric over
  whole-image statistics, a search over a bracket of qualities, and the choice of the
  output. The functions of the program are written below as functions of HOL, with the
  names they have in the source.
\<close>

section \<open>Go values\<close>

text \<open>
  A \<open>float64\<close> is a real number or one of the three special values of IEEE 754.
  Finite arithmetic is exact (no rounding, no overflow to infinity); the special values
  follow the IEEE rules. The sign of a zero is not kept: the only divisor of the program
  that can be zero is \<open>float64(w*h - 1)\<close>, a positive zero.
\<close>

datatype float64 = Num real | PInf | NInf | NaN

fun fneg :: "float64 \<Rightarrow> float64" where
  "fneg (Num a) = Num (- a)"
| "fneg PInf = NInf"
| "fneg NInf = PInf"
| "fneg NaN = NaN"

fun fadd :: "float64 \<Rightarrow> float64 \<Rightarrow> float64" where
  "fadd (Num a) (Num b) = Num (a + b)"
| "fadd NaN y = NaN"
| "fadd x NaN = NaN"
| "fadd PInf NInf = NaN"
| "fadd NInf PInf = NaN"
| "fadd PInf y = PInf"
| "fadd NInf y = NInf"
| "fadd (Num a) y = y"

definition fsub :: "float64 \<Rightarrow> float64 \<Rightarrow> float64" where
  "fsub x y = fadd x (fneg y)"

fun fmul :: "float64 \<Rightarrow> float64 \<Rightarrow> float64" where
  "fmul (Num a) (Num b) = Num (a * b)"
| "fmul NaN y = NaN"
| "fmul x NaN = NaN"
| "fmul (Num a) y = (if a = 0 then NaN else if 0 < a then y else fneg y)"
| "fmul x (Num b) = (if b = 0 then NaN else if 0 < b then x else fneg x)"
| "fmul PInf y = y"
| "fmul NInf y = fneg y"

fun fdiv :: "float64 \<Rightarrow> float64 \<Rightarrow> float64" where
  "fdiv (Num a) (Num b) =
     (if b \<noteq> 0 then Num (a / b)
      else if a = 0 then NaN else if 0 < a then PInf else NInf)"
| "fdiv NaN y = NaN"
| "fdiv x NaN = NaN"
| "fdiv (Num a) y = Num 0"
| "fdiv x (Num b) = (if 0 \<le> b then x else fneg x)"
| "fdiv x y = NaN"

text \<open>\<open>math.Pow(x, 2.0)\<close> and \<open>math.Sqrt(x)\<close>.\<close>

definition Pow2 :: "float64 \<Rightarrow> float64" where
  "Pow2 x = fmul x x"

fun Sqrt :: "float64 \<Rightarrow> float64" where
  "Sqrt (Num a) = (if 0 \<le> a then Num (sqrt a) else NaN)"
| "Sqrt PInf = PInf"
| "Sqrt NInf = NaN"
| "Sqrt NaN = NaN"

text \<open>The comparisons \<open><\<close>, \<open>>\<close>, \<open><=\<close>, \<open>>=\<close>: each is false when an operand is NaN.\<close>

fun flt :: "float64 \<Rightarrow> float64 \<Rightarrow> bool" where
  "flt (Num a) (Num b) = (a < b)"
| "flt NaN y = False"
| "flt x NaN = False"
| "flt x NInf = False"
| "flt PInf y = False"
| "flt x y = True"

definition fgt :: "float64 \<Rightarrow> float64 \<Rightarrow> bool" where
  "fgt x y = flt y x"

fun fle :: "float64 \<Rightarrow> float64 \<Rightarrow> bool" where
  "fle (Num a) (Num b) = (a \<le> b)"
| "fle NaN y = False"
| "fle x NaN = False"
| "fle NInf y = True"
| "fle x PInf = True"
| "fle x y = False"

definition fge :: "float64 \<Rightarrow> float64 \<Rightarrow> bool" where
  "fge x y = fle y x"

text \<open>
  Go's \<open>int\<close> is taken at 64 bits. The qualities stay between 0 and 100 once the
  arguments are checked (lemma \<open>bracket_invariant\<close>), and an image held in memory has
  fewer than \<open>2 ^ 63\<close> points, so their arithmetic, and the conversions to \<open>float64\<close>
  and back in \<open>math.Max\<close> and \<open>math.Min\<close>, are written on \<open>int\<close>. The attempt counter
  can reach the largest machine integer, and its increment wraps.
\<close>

definition max_int :: int where
  "max_int = 2 ^ 63 - 1"

definition wrap64 :: "int \<Rightarrow> int" where
  "wrap64 i = (i + 2 ^ 63) mod 2 ^ 64 - 2 ^ 63"

datatype error = Err string

type_synonym bytes = "8 word list"

section \<open>Images\<close>

text \<open>
  A colour is given by what its \<open>RGBA()\<close> method returns; an image by its bounds and
  its \<open>At\<close> method.
\<close>

type_synonym color = "32 word \<times> 32 word \<times> 32 word \<times> 32 word"

record image =
  min_x :: int
  min_y :: int
  max_x :: int
  max_y :: int
  At :: "int \<Rightarrow> int \<Rightarrow> color"

definition getPixVal :: "color \<Rightarrow> float64" where
  "getPixVal c = (case c of (r, g, b, a) \<Rightarrow> Num (real (unat (drop_bit 8 r))))"

definition dim :: "image \<Rightarrow> int \<times> int" where
  "dim img = (max_x img, max_y img)"

definition equalDim :: "image \<Rightarrow> image \<Rightarrow> bool" where
  "equalDim img1 img2 =
     (case dim img1 of (w1, h1) \<Rightarrow> case dim img2 of (w2, h2) \<Rightarrow> w1 = w2 \<and> h1 = h2)"

text \<open>
  The points visited by \<open>for x := 0; x < w; x++ { for y := 0; y < h; y++ { ... } }\<close>, in
  order.
\<close>

definition upto_int :: "int \<Rightarrow> int list" where
  "upto_int n = map int [0..<nat n]"

definition points :: "int \<Rightarrow> int \<Rightarrow> (int \<times> int) list" where
  "points w h = concat (map (\<lambda>x. map (\<lambda>y. (x, y)) (upto_int h)) (upto_int w))"

section \<open>Image statistics\<close>

definition mean :: "image \<Rightarrow> float64" where
  "mean img =
     (case dim img of (w, h) \<Rightarrow>
        let n = Num (real_of_int (w * h - 1));
            sum = foldl (\<lambda>sum (x, y). fadd sum (getPixVal (At img x y))) (Num 0) (points w h)
        in fdiv sum n)"

definition stdev :: "image \<Rightarrow> float64" where
  "stdev img =
     (case dim img of (w, h) \<Rightarrow>
        let n = Num (real_of_int (w * h - 1));
            avg = mean img;
            sum = foldl (\<lambda>sum (x, y).
                     let pix = getPixVal (At img x y) in fadd sum (Pow2 (fsub pix avg)))
                   (Num 0) (points w h)
        in Sqrt (fdiv sum n))"

definition covar :: "image \<Rightarrow> image \<Rightarrow> error + float64" where
  "covar img1 img2 =
     (if \<not> equalDim img1 img2 then Inl (Err ''images must have same dimension'')
      else
        let avg1 = mean img1;
            avg2 = mean img2
        in case dim img1 of (w, h) \<Rightarrow>
          let n = Num (real_of_int (w * h - 1));
              sum = foldl (\<lambda>sum (x, y).
                       let pix1 = getPixVal (At img1 x y);
                           pix2 = getPixVal (At img2 x y)
                       in fadd sum (fmul (fsub pix1 avg1) (fsub pix2 avg2)))
                     (Num 0) (points w h)
          in Inr (fdiv sum n))"

section \<open>The similarity metric\<close>

definition L :: real where "L = 255"
definition K1 :: real where "K1 = 1 / 100"
definition K2 :: real where "K2 = 3 / 100"
definition C1 :: real where "C1 = (K1 * L)\<^sup>2"
definition C2 :: real where "C2 = (K2 * L)\<^sup>2"

definition ssim :: "image \<Rightarrow> image \<Rightarrow> float64" where
  "ssim x y =
     (let avgX = mean x;
          avgY = mean y;
          stdevX = stdev x;
          stdevY = stdev y
      in case covar x y of
           Inl err \<Rightarrow> Num 0
         | Inr cov \<Rightarrow>
             let numerator =
                   fmul (fadd (fmul (fmul (Num 2) avgX) avgY) (Num C1))
                        (fadd (fmul (Num 2) cov) (Num C2));
                 denominator =
                   fmul (fadd (fadd (Pow2 avgX) (Pow2 avgY)) (Num C1))
                        (fadd (fadd (Pow2 stdevX) (Pow2 stdevY)) (Num C2))
             in fdiv numerator denominator)"

section \<open>The codec and the candidate evaluation\<close>

text \<open>
  The JPEG encoder and decoder and the grey colour model belong to Go's library; they
  are parameters. \<open>gray_color y\<close> is what \<open>color.Gray{y}.RGBA()\<close> returns.
\<close>

record codec =
  jpeg_Encode :: "image \<Rightarrow> int \<Rightarrow> error + bytes"
  jpeg_Decode :: "bytes \<Rightarrow> error + image"
  GrayModel_Convert :: "color \<Rightarrow> 8 word"

definition encodeToJPEGBytes :: "codec \<Rightarrow> image \<Rightarrow> int \<Rightarrow> error + bytes" where
  "encodeToJPEGBytes cd img quality =
     (case jpeg_Encode cd img quality of Inl err \<Rightarrow> Inl err | Inr buf \<Rightarrow> Inr buf)"

definition gray_color :: "8 word \<Rightarrow> color" where
  "gray_color y = (let v = or (ucast y) (push_bit 8 (ucast y)) in (v, v, v, 65535))"

text \<open>
  \<open>image.NewGray(bounds)\<close> is black; \<open>Set\<close> changes a point inside the bounds only, and
  the loop sets the points with \<open>0 \<le> x < w\<close> and \<open>0 \<le> y < h\<close>.
\<close>

definition convertToGray :: "codec \<Rightarrow> image \<Rightarrow> image" where
  "convertToGray cd originalImg =
     (case dim originalImg of (w, h) \<Rightarrow>
        originalImg\<lparr>At := \<lambda>x y.
          if 0 \<le> x \<and> x < w \<and> 0 \<le> y \<and> y < h \<and> min_x originalImg \<le> x \<and> min_y originalImg \<le> y
          then gray_color (GrayModel_Convert cd (At originalImg x y))
          else gray_color 0\<rparr>)"

definition compare :: "codec \<Rightarrow> image \<Rightarrow> int \<Rightarrow> error + float64 \<times> bytes" where
  "compare cd original quality =
     (case encodeToJPEGBytes cd original quality of
        Inl err \<Rightarrow> Inl err
      | Inr raw \<Rightarrow>
          (case jpeg_Decode cd raw of
             Inl err \<Rightarrow> Inl err
           | Inr decoded \<Rightarrow> Inr (ssim original (convertToGray cd decoded), raw)))"

section \<open>The program's surroundings\<close>

text \<open>
  What the program prints, line by line (the values of each line, not their formatting),
  what it leaves at the destination path, and how it ends.
\<close>

datatype line =
    OriginalSize int
  | Attempt int int float64 int
  | FinalImage int float64 int
  | Savings int int
  | NoMatchNotSaving
  | NoMatchCopying
  | NoMatchFallback
  | ErrorMsg string
  | Usage
  | LogLine error

datatype dest_file = NotWritten | Written bytes | Copied | CopyFailed

datatype exit = Returned | Exit int | Panic string

record run =
  status :: exit
  printed :: "line list"
  destination :: dest_file

text \<open>
  The file system as the program meets it: the answers of \<open>os.Stat\<close>, of the readers of
  the source file, of \<open>os.Create\<close> (its error, if any), of \<open>f.Write\<close> (the number of bytes
  written and its error, if any) and of \<open>copyFile\<close>.
\<close>

record world =
  stat_IsNotExist :: "string \<Rightarrow> bool"
  stat_ok :: "string \<Rightarrow> bool"
  readImage :: "string \<Rightarrow> error + image"
  getFilesize :: "string \<Rightarrow> error + int"
  isJpeg :: "string \<Rightarrow> bool"
  os_Create :: "string \<Rightarrow> error option"
  file_Write :: "bytes \<Rightarrow> nat \<times> error option"
  copyFile :: "string \<Rightarrow> string \<Rightarrow> error + int"

definition save :: "world \<Rightarrow> string \<Rightarrow> bytes \<Rightarrow> error option \<times> line list \<times> dest_file" where
  "save w p data =
     (case os_Create w p of
        Some err \<Rightarrow> (Some err, [LogLine err], NotWritten)
      | None \<Rightarrow> (case file_Write w data of (n, werr) \<Rightarrow> (None, [], Written (take n data))))"

section \<open>The command line\<close>

record args =
  src_arg :: string
  dest_arg :: string
  force_flag :: bool
  max_flag :: int
  min_flag :: int
  target_flag :: float64
  loops_flag :: int
  help_flag :: bool
  noCopy_flag :: bool

definition checkArgs_msg ::
  "world \<Rightarrow> string \<Rightarrow> string \<Rightarrow> bool \<Rightarrow> int \<Rightarrow> int \<Rightarrow> float64 \<Rightarrow> int \<Rightarrow> string" where
  "checkArgs_msg w src dest force max_q min_q target loops =
     (let msg = [];
          msg = (if stat_IsNotExist w src
                 then ''Source image '' @ [CHR 0x27] @ src @ [CHR 0x27] @ '' does not exists.''
                 else msg);
          msg = (if \<not> force
                 then (if stat_ok w dest
                       then ''Destiation path '' @ [CHR 0x27] @ dest @ [CHR 0x27]
                            @ '' already exists. Use -f to overwrite.''
                       else msg)
                 else msg);
          msg = (if dest = [] then ''Please specify a destination path'' else msg);
          msg = (if max_q < 1 \<or> max_q > 100
                 then ''Maximum quality has to be between 1 and 100.'' else msg);
          msg = (if min_q < 0 \<or> min_q > 99
                 then ''Minimum quality has to be between 0 and 99.'' else msg);
          msg = (if fle target (Num 0) \<or> fgt target (Num 1)
                 then ''Target has to be between 0 and 99.'' else msg);
          msg = (if loops \<le> 0 then ''Loops has to be more than 0'' else msg)
      in msg)"

definition checkArgs ::
  "world \<Rightarrow> string \<Rightarrow> string \<Rightarrow> bool \<Rightarrow> int \<Rightarrow> int \<Rightarrow> float64 \<Rightarrow> int \<Rightarrow> bool \<times> line list" where
  "checkArgs w src dest force max_q min_q target loops =
     (let msg = checkArgs_msg w src dest force max_q min_q target loops
      in if msg = [] then (True, []) else (False, [ErrorMsg msg]))"

section \<open>The search\<close>

record search =
  minQ :: int
  maxQ :: int
  attempt :: int
  bestSize :: int
  bestQ :: int
  bestIndex :: float64
  fallbackQ :: int
  fallbackSize :: int
  fallbackIndex :: float64
  stdout :: "line list"

text \<open>The quality probed by an attempt; Go's integer division truncates.\<close>

definition midpoint :: "int \<Rightarrow> int \<Rightarrow> int" where
  "midpoint lo hi = lo + (hi - lo) sdiv 2"

text \<open>The decision rules: lines 351 to 365.\<close>

definition decide :: "int \<Rightarrow> float64 \<Rightarrow> int \<Rightarrow> int \<Rightarrow> int \<Rightarrow> float64 \<Rightarrow> search \<Rightarrow> search" where
  "decide originalSize target loops q newSize index s =
     (if newSize \<ge> originalSize then
        (if flt index target then s\<lparr>attempt := loops\<rparr>
         else s\<lparr>maxQ := max (q - 1) (minQ s)\<rparr>)
      else
        (if flt index target then s\<lparr>minQ := min (q + 1) (maxQ s)\<rparr>
         else if fgt index target then s\<lparr>maxQ := max (q - 1) (minQ s)\<rparr>
         else s\<lparr>attempt := loops\<rparr>))"

text \<open>The best candidate: lines 366 to 370.\<close>

definition update_best :: "float64 \<Rightarrow> int \<Rightarrow> int \<Rightarrow> float64 \<Rightarrow> search \<Rightarrow> search" where
  "update_best target q newSize index s =
     (if newSize < bestSize s \<and> fge index target
      then s\<lparr>bestSize := newSize, bestQ := q, bestIndex := index\<rparr>
      else s)"

text \<open>The fallback candidate: lines 372 to 383.\<close>

definition update_fallback :: "int \<Rightarrow> int \<Rightarrow> int \<Rightarrow> float64 \<Rightarrow> search \<Rightarrow> search" where
  "update_fallback originalSize q newSize index s =
     (let s = (if fallbackSize s = 0 then s\<lparr>fallbackSize := newSize\<rparr> else s)
      in if newSize \<le> originalSize \<and> newSize > fallbackSize s
         then s\<lparr>fallbackSize := newSize, fallbackQ := q, fallbackIndex := index\<rparr>
         else if newSize > originalSize \<and> newSize < fallbackSize s
         then s\<lparr>fallbackSize := newSize, fallbackQ := q, fallbackIndex := index\<rparr>
         else s)"

text \<open>One pass through the loop body: lines 340 to 383.\<close>

datatype step = StepPanic string | StepBreak search | StepNext search

definition attempt_body ::
  "codec \<Rightarrow> image \<Rightarrow> int \<Rightarrow> float64 \<Rightarrow> int \<Rightarrow> search \<Rightarrow> step" where
  "attempt_body cd originalGray originalSize target loops s =
     (let q = midpoint (minQ s) (maxQ s)
      in if minQ s = maxQ s then StepBreak s
         else case compare cd originalGray q of
                Inl err \<Rightarrow> StepPanic ''Error when comparing images''
              | Inr (index, data) \<Rightarrow>
                  let newSize = int (length data);
                      s = s\<lparr>stdout := stdout s @ [Attempt (attempt s) q index newSize]\<rparr>;
                      s = decide originalSize target loops q newSize index s;
                      s = update_best target q newSize index s;
                      s = update_fallback originalSize q newSize index s
                  in StepNext s)"

text \<open>
  The loop \<open>for attempt := 1; attempt <= loops; attempt++\<close>, entered with \<open>attempt\<close> set.
  \<open>None\<close> is a loop that never ends.
\<close>

datatype search_end = Panicked string search | Finished search

partial_function (option) search_loop ::
  "codec \<Rightarrow> image \<Rightarrow> int \<Rightarrow> float64 \<Rightarrow> int \<Rightarrow> search \<Rightarrow> search_end option" where
  "search_loop cd originalGray originalSize target loops s =
     (if attempt s \<le> loops then
        (case attempt_body cd originalGray originalSize target loops s of
           StepPanic msg \<Rightarrow> Some (Panicked msg s)
         | StepBreak s' \<Rightarrow> Some (Finished s')
         | StepNext s' \<Rightarrow>
             search_loop cd originalGray originalSize target loops
               (s'\<lparr>attempt := wrap64 (attempt s' + 1)\<rparr>))
      else Some (Finished s))"

definition initial_search :: "int \<Rightarrow> int \<Rightarrow> int \<Rightarrow> search" where
  "initial_search lo hi originalSize =
     \<lparr>minQ = lo, maxQ = hi, attempt = 1,
      bestSize = originalSize, bestQ = 0, bestIndex = Num 0,
      fallbackQ = 0, fallbackSize = 0, fallbackIndex = Num 0,
      stdout = [OriginalSize originalSize]\<rparr>"

section \<open>The outcome\<close>

text \<open>What follows the loop: lines 386 to 415.\<close>

definition finish :: "codec \<Rightarrow> world \<Rightarrow> args \<Rightarrow> image \<Rightarrow> int \<Rightarrow> search \<Rightarrow> run" where
  "finish cd w a original originalSize s =
     (if bestSize s < originalSize then
        (case encodeToJPEGBytes cd original (bestQ s) of
           Inl (Err msg) \<Rightarrow> \<lparr>status = Panic msg, printed = stdout s, destination = NotWritten\<rparr>
         | Inr data \<Rightarrow>
             (case save w (dest_arg a) data of (err, logged, out) \<Rightarrow>
                \<lparr>status = Returned,
                 printed = stdout s @ logged
                   @ [FinalImage (bestQ s) (bestIndex s) (bestSize s),
                      Savings (bestSize s) originalSize],
                 destination = out\<rparr>))
      else if noCopy_flag a then
        \<lparr>status = Returned, printed = stdout s @ [NoMatchNotSaving], destination = NotWritten\<rparr>
      else if isJpeg w (src_arg a) then
        (case copyFile w (src_arg a) (dest_arg a) of
           Inl (Err msg) \<Rightarrow>
             \<lparr>status = Panic msg, printed = stdout s @ [NoMatchCopying], destination = CopyFailed\<rparr>
         | Inr nBytes \<Rightarrow>
             \<lparr>status = Returned, printed = stdout s @ [NoMatchCopying], destination = Copied\<rparr>)
      else
        (let lines = stdout s
               @ [NoMatchFallback,
                  FinalImage (fallbackQ s) (fallbackIndex s) (fallbackSize s),
                  Savings (fallbackSize s) originalSize]
         in case encodeToJPEGBytes cd original (fallbackQ s) of
              Inl (Err msg) \<Rightarrow> \<lparr>status = Panic msg, printed = lines, destination = NotWritten\<rparr>
            | Inr data \<Rightarrow>
                (case save w (dest_arg a) data of (err, logged, out) \<Rightarrow>
                   \<lparr>status = Returned, printed = lines @ logged, destination = out\<rparr>)))"

definition main :: "codec \<Rightarrow> world \<Rightarrow> args \<Rightarrow> run option" where
  "main cd w a =
     (if help_flag a then Some \<lparr>status = Returned, printed = [Usage], destination = NotWritten\<rparr>
      else
        (case checkArgs w (src_arg a) (dest_arg a) (force_flag a) (max_flag a) (min_flag a)
                (target_flag a) (loops_flag a) of
           (ok, complaint) \<Rightarrow>
             if \<not> ok
             then Some \<lparr>status = Exit 1, printed = complaint @ [Usage], destination = NotWritten\<rparr>
             else
               (case readImage w (src_arg a) of
                  Inl (Err msg) \<Rightarrow>
                    Some \<lparr>status = Panic msg, printed = [], destination = NotWritten\<rparr>
                | Inr original \<Rightarrow>
                    (case getFilesize w (src_arg a) of
                       Inl (Err msg) \<Rightarrow>
                         Some \<lparr>status = Panic msg, printed = [], destination = NotWritten\<rparr>
                     | Inr originalSize \<Rightarrow>
                         (let originalGray = convertToGray cd original
                          in (case search_loop cd originalGray originalSize (target_flag a)
                                      (loops_flag a)
                                      (initial_search (min_flag a) (max_flag a) originalSize) of
                                None \<Rightarrow> None
                              | Some (Panicked msg s) \<Rightarrow>
                                  Some \<lparr>status = Panic msg, printed = stdout s,
                                        destination = NotWritten\<rparr>
                              | Some (Finished s) \<Rightarrow>
                                  Some (finish cd w a original originalSize s)))))))"

section \<open>The states at the head of the loop\<close>

text \<open>
  \<open>loop_head ... s0 s\<close>: the loop entered with \<open>s0\<close> tests its condition \<open>attempt <= loops\<close>
  in state \<open>s\<close>. An attempt is evaluated from such a state when the condition holds and the
  bracket has not collapsed.
\<close>

inductive loop_head ::
  "codec \<Rightarrow> image \<Rightarrow> int \<Rightarrow> float64 \<Rightarrow> int \<Rightarrow> search \<Rightarrow> search \<Rightarrow> bool"
  for cd originalGray originalSize target loops s0
where
  entry: "loop_head cd originalGray originalSize target loops s0 s0"
| again: "loop_head cd originalGray originalSize target loops s0 s \<Longrightarrow>
          attempt s \<le> loops \<Longrightarrow>
          attempt_body cd originalGray originalSize target loops s = StepNext s' \<Longrightarrow>
          loop_head cd originalGray originalSize target loops s0
            (s'\<lparr>attempt := wrap64 (attempt s' + 1)\<rparr>)"

fun end_state :: "search_end \<Rightarrow> search" where
  "end_state (Panicked msg s) = s"
| "end_state (Finished s) = s"

section \<open>Quantities the statements speak of\<close>

text \<open>
  The luminance of a point, the sum of the luminances over the points the loops visit, the
  sum of the squared distances to a value \<open>m\<close>, and the sum of the products of the
  distances of two images to two values.
\<close>

definition lum :: "image \<Rightarrow> int \<Rightarrow> int \<Rightarrow> real" where
  "lum img x y = (case At img x y of (r, g, b, a) \<Rightarrow> real (unat (drop_bit 8 r)))"

definition pixel_sum :: "image \<Rightarrow> real" where
  "pixel_sum img = sum_list (map (\<lambda>(x, y). lum img x y) (points (max_x img) (max_y img)))"

definition sq_sum :: "image \<Rightarrow> real \<Rightarrow> real" where
  "sq_sum img m =
     sum_list (map (\<lambda>(x, y). (lum img x y - m) * (lum img x y - m))
       (points (max_x img) (max_y img)))"

definition cross_sum :: "image \<Rightarrow> image \<Rightarrow> real \<Rightarrow> real \<Rightarrow> real" where
  "cross_sum img1 img2 m1 m2 =
     sum_list (map (\<lambda>(x, y). (lum img1 x y - m1) * (lum img2 x y - m2))
       (points (max_x img1) (max_y img1)))"

text \<open>
  The fallback update, given a candidate of size \<open>newSize\<close> in state \<open>s\<close>, takes one of its
  two branches that assign \<open>fallbackQ\<close> and \<open>fallbackIndex\<close>; and the attempt evaluated from
  \<open>s\<close> does so.
\<close>

definition records_quality :: "int \<Rightarrow> int \<Rightarrow> search \<Rightarrow> bool" where
  "records_quality originalSize newSize s =
     (let size = (if fallbackSize s = 0 then newSize else fallbackSize s)
      in (newSize \<le> originalSize \<and> newSize > size) \<or> (newSize > originalSize \<and> newSize < size))"

definition attempt_records :: "codec \<Rightarrow> image \<Rightarrow> int \<Rightarrow> search \<Rightarrow> bool" where
  "attempt_records cd originalGray originalSize s =
     (minQ s \<noteq> maxQ s \<and>
      (case compare cd originalGray (midpoint (minQ s) (maxQ s)) of
         Inl err \<Rightarrow> False
       | Inr (index, data) \<Rightarrow> records_quality originalSize (int (length data)) s))"

text \<open>
  The number of bytes of the encoding of an image at a quality. A printed attempt is
  \<open>sized_by\<close> an image when its size is that number for the attempt's quality, and
  \<open>scored_against\<close> an image when its index is the metric of that image and the grey copy
  of its decoded encoding.
\<close>

definition encoded_size :: "codec \<Rightarrow> image \<Rightarrow> int \<Rightarrow> int option" where
  "encoded_size cd img q =
     (case encodeToJPEGBytes cd img q of Inl err \<Rightarrow> None | Inr raw \<Rightarrow> Some (int (length raw)))"

definition sized_by :: "codec \<Rightarrow> image \<Rightarrow> line \<Rightarrow> bool" where
  "sized_by cd img row =
     (case row of Attempt k q index newSize \<Rightarrow> encoded_size cd img q = Some newSize | _ \<Rightarrow> True)"

definition scored_against :: "codec \<Rightarrow> image \<Rightarrow> line \<Rightarrow> bool" where
  "scored_against cd img row =
     (case row of
        Attempt k q index newSize \<Rightarrow>
          (case encodeToJPEGBytes cd img q of
             Inl err \<Rightarrow> False
           | Inr raw \<Rightarrow>
               (case jpeg_Decode cd raw of
                  Inl err \<Rightarrow> False
                | Inr decoded \<Rightarrow> index = ssim img (convertToGray cd decoded)))
      | _ \<Rightarrow> True)"

section \<open>Example inputs\<close>

text \<open>
  An image of two points, side by side, both of one colour; an image of three points in a
  row; a colour that is not grey; and the grey image of two points that \<open>convertToGray\<close>
  makes.
\<close>

definition flat :: "color \<Rightarrow> image" where
  "flat c = \<lparr>min_x = 0, min_y = 0, max_x = 2, max_y = 1, At = \<lambda>x y. c\<rparr>"

definition wide :: "color \<Rightarrow> image" where
  "wide c = \<lparr>min_x = 0, min_y = 0, max_x = 3, max_y = 1, At = \<lambda>x y. c\<rparr>"

definition orange :: color where
  "orange = (51400, 25700, 12850, 65535)"

definition two :: "8 word \<Rightarrow> image" where
  "two v =
     \<lparr>min_x = 0, min_y = 0, max_x = 2, max_y = 1,
      At = \<lambda>x y. if 0 \<le> x \<and> x < 2 \<and> 0 \<le> y \<and> y < 1 then gray_color v else gray_color 0\<rparr>"

text \<open>
  A codec for the examples. The grey level of a colour is the one Go's \<open>color.GrayModel\<close>
  computes. The encoder reads the number of bytes \<open>n\<close> and a grey level \<open>v\<close> for the
  quality from a table; it writes \<open>v\<close> and then \<open>n\<close> bytes for a grey image, 40 more
  for a coloured one. The decoder gives the two-point image of grey level \<open>v\<close>.
\<close>

definition example_gray :: "color \<Rightarrow> 8 word" where
  "example_gray c =
     (case c of (r, g, b, a) \<Rightarrow>
        ucast (drop_bit 24 (19595 * r + 38470 * g + 7471 * b + 32768)))"

definition is_grey :: "color \<Rightarrow> bool" where
  "is_grey c = (case c of (r, g, b, a) \<Rightarrow> r = g \<and> g = b)"

definition table_codec :: "(int \<Rightarrow> nat \<times> 8 word) \<Rightarrow> codec" where
  "table_codec tbl =
     \<lparr>jpeg_Encode = (\<lambda>img q. case tbl q of (n, v) \<Rightarrow>
          Inr (v # replicate (if is_grey (At img 0 0) then n else n + 40) 0)),
      jpeg_Decode = (\<lambda>raw. case raw of [] \<Rightarrow> Inl (Err ''unexpected EOF'')
                              | v # rest \<Rightarrow> Inr (flat (gray_color v))),
      GrayModel_Convert = example_gray\<rparr>"

text \<open>
  Three tables. \<open>good_table\<close>: every quality gives 50 bytes and the source's own grey level.
  \<open>stuck_table\<close>: every quality gives 150 bytes and a black image. \<open>fallback_table\<close>:
  quality 67 gives 150 bytes and the source's grey level, every other quality 80 bytes and a
  black image.
\<close>

definition good_table :: "int \<Rightarrow> nat \<times> 8 word" where
  "good_table q = (49, 124)"

definition stuck_table :: "int \<Rightarrow> nat \<times> 8 word" where
  "stuck_table q = (149, 0)"

definition fallback_table :: "int \<Rightarrow> nat \<times> 8 word" where
  "fallback_table q = (if q = 67 then (149, 124) else (79, 0))"

text \<open>
  A file system for the examples: the source exists, is the orange image, is not a JPEG
  and has the given size on disk; the destination does not exist; \<open>os.Create\<close> answers as
  given and every write succeeds.
\<close>

definition example_world :: "int \<Rightarrow> error option \<Rightarrow> world" where
  "example_world bytes_on_disk create =
     \<lparr>stat_IsNotExist = (\<lambda>p. False), stat_ok = (\<lambda>p. False),
      readImage = (\<lambda>p. Inr (flat orange)),
      getFilesize = (\<lambda>p. Inr bytes_on_disk),
      isJpeg = (\<lambda>p. False),
      os_Create = (\<lambda>p. create),
      file_Write = (\<lambda>data. (length data, None)),
      copyFile = (\<lambda>s d. Inr bytes_on_disk)\<rparr>"

text \<open>The same file system with a disk that takes ten bytes and then fails.\<close>

definition full_disk_world :: world where
  "full_disk_world =
     (example_world 100 None)
       \<lparr>file_Write := \<lambda>data. (10, Some (Err ''write out.jpg: no space left on device''))\<rparr>"

definition example_args :: "int \<Rightarrow> int \<Rightarrow> int \<Rightarrow> args" where
  "example_args lo hi n =
     \<lparr>src_arg = ''in.png'', dest_arg = ''out.jpg'', force_flag = False,
      max_flag = hi, min_flag = lo, target_flag = Num (9999 / 10000), loops_flag = n,
      help_flag = False, noCopy_flag = False\<rparr>"

section \<open>What the specification says, where it is compared with the code\<close>

text \<open>The arithmetic mean of the luminances: their sum divided by the number of points.\<close>

definition arithmetic_mean :: "image \<Rightarrow> real" where
  "arithmetic_mean img = pixel_sum img / real_of_int (max_x img * max_y img)"

text \<open>The integer midpoint of a bracket, a half rounded towards the upper end.\<close>

definition midpoint_ties_up :: "int \<Rightarrow> int \<Rightarrow> int" where
  "midpoint_ties_up lo hi = \<lceil>(real_of_int lo + real_of_int hi) / 2\<rceil>"

section \<open>Statistics: basic facts\<close>

lemma fold_fadd_Num:
  "foldl (\<lambda>s (x, y). fadd s (Num (f x y))) (Num a) ps
     = Num (a + sum_list (map (\<lambda>(x, y). f x y) ps))"
  by (induction ps arbitrary: a) (auto simp: add.assoc)

lemma getPixVal_At: "getPixVal (At img x y) = Num (lum img x y)"
  by (simp add: getPixVal_def lum_def split: prod.splits)

lemma count_minus_one_nonzero:
  "w * h \<noteq> 1 \<Longrightarrow> real_of_int (w * h - 1) \<noteq> 0"
  by (metis diff_eq_diff_eq diff_self of_int_eq_0_iff)

lemma count_minus_one_pos:
  "1 < w * h \<Longrightarrow> 0 < real_of_int (w * h - 1)"
  by (metis diff_gt_0_iff_gt of_int_0_less_iff)

lemma mean_Num:
  assumes "max_x img * max_y img \<noteq> 1"
  shows "mean img = Num (pixel_sum img / real_of_int (max_x img * max_y img - 1))"
proof -
  have "foldl (\<lambda>sum (x, y). fadd sum (getPixVal (At img x y))) (Num 0) ps
        = Num (sum_list (map (\<lambda>(x, y). lum img x y) ps))" for ps
    using fold_fadd_Num [of "lum img" 0 ps] by (simp add: getPixVal_At)
  then show ?thesis
    using count_minus_one_nonzero [OF assms]
    by (simp add: mean_def dim_def pixel_sum_def Let_def del: of_int_diff of_int_mult)
qed

lemma sq_sum_nonneg: "0 \<le> sq_sum img m"
  unfolding sq_sum_def by (rule sum_list_nonneg) auto

lemma stdev_Num:
  assumes "1 < max_x img * max_y img" and "mean img = Num m"
  shows "stdev img = Num (sqrt (sq_sum img m / real_of_int (max_x img * max_y img - 1)))"
proof -
  have "foldl (\<lambda>sum (x, y). let pix = getPixVal (At img x y)
                  in fadd sum (Pow2 (fsub pix (Num m)))) (Num 0) ps
        = Num (sum_list (map (\<lambda>(x, y). (lum img x y - m) * (lum img x y - m)) ps))" for ps
    using fold_fadd_Num [of "\<lambda>x y. (lum img x y - m) * (lum img x y - m)" 0 ps]
    by (simp add: getPixVal_At Pow2_def fsub_def)
  then show ?thesis
    using count_minus_one_pos [OF assms(1)] assms(2) sq_sum_nonneg [of img m]
    by (simp add: stdev_def dim_def sq_sum_def Let_def del: of_int_diff of_int_mult)
qed

lemma covar_self_Num:
  assumes "1 < max_x img * max_y img" and "mean img = Num m"
  shows "covar img img = Inr (Num (sq_sum img m / real_of_int (max_x img * max_y img - 1)))"
proof -
  have "foldl (\<lambda>sum (x, y). let pix1 = getPixVal (At img x y); pix2 = getPixVal (At img x y)
            in fadd sum (fmul (fsub pix1 (Num m)) (fsub pix2 (Num m)))) (Num 0) ps
        = Num (sum_list (map (\<lambda>(x, y). (lum img x y - m) * (lum img x y - m)) ps))" for ps
    using fold_fadd_Num [of "\<lambda>x y. (lum img x y - m) * (lum img x y - m)" 0 ps]
    by (simp add: getPixVal_At fsub_def)
  then show ?thesis
    using count_minus_one_pos [OF assms(1)] assms(2)
    by (simp add: covar_def equalDim_def dim_def sq_sum_def Let_def del: of_int_diff of_int_mult)
qed

lemma covar_Num:
  assumes "dim img1 = dim img2" and "1 < max_x img1 * max_y img1"
    and "mean img1 = Num m1" and "mean img2 = Num m2"
  shows "covar img1 img2
           = Inr (Num (cross_sum img1 img2 m1 m2 / real_of_int (max_x img1 * max_y img1 - 1)))"
proof -
  have "foldl (\<lambda>sum (x, y). let pix1 = getPixVal (At img1 x y); pix2 = getPixVal (At img2 x y)
            in fadd sum (fmul (fsub pix1 (Num m1)) (fsub pix2 (Num m2)))) (Num 0) ps
        = Num (sum_list (map (\<lambda>(x, y). (lum img1 x y - m1) * (lum img2 x y - m2)) ps))" for ps
    using fold_fadd_Num [of "\<lambda>x y. (lum img1 x y - m1) * (lum img2 x y - m2)" 0 ps]
    by (simp add: getPixVal_At fsub_def)
  then show ?thesis
    using count_minus_one_pos [OF assms(2)] assms(1,3,4)
    by (simp add: covar_def equalDim_def dim_def cross_sum_def Let_def
          del: of_int_diff of_int_mult)
qed

lemma C1_pos: "0 < C1"
  by (simp add: C1_def K1_def L_def)

lemma C2_pos: "0 < C2"
  by (simp add: C2_def K2_def L_def)

section \<open>The metric of an image against itself\<close>

text \<open>
  Claim C7. For every image of at least two points (\<open>w * h \<ge> 2\<close> for the width and height
  that \<open>dim\<close> reports), in exact arithmetic, the similarity metric of the image and itself
  is exactly 1: the covariance of the image with itself is the square of its standard
  deviation, so numerator and denominator are the same positive number.
\<close>

theorem ssim_identity:
  assumes "2 \<le> max_x img * max_y img"
  shows "ssim img img = Num 1"
proof -
  from assms have n1: "max_x img * max_y img \<noteq> 1" and n2: "1 < max_x img * max_y img"
    by simp_all
  define m where "m = pixel_sum img / real_of_int (max_x img * max_y img - 1)"
  define v where "v = sq_sum img m / real_of_int (max_x img * max_y img - 1)"
  have mean: "mean img = Num m"
    using mean_Num [OF n1] by (simp add: m_def)
  have sd: "stdev img = Num (sqrt v)"
    using stdev_Num [OF n2 mean] by (simp add: v_def)
  have cv: "covar img img = Inr (Num v)"
    using covar_self_Num [OF n2 mean] by (simp add: v_def)
  have v0: "0 \<le> v"
    unfolding v_def using sq_sum_nonneg [of img m] count_minus_one_pos [OF n2]
    by (intro divide_nonneg_nonneg) simp_all
  have a: "2 * (m * m) + C1 \<noteq> 0"
    using C1_pos zero_le_square [of m] by linarith
  have b: "2 * v + C2 \<noteq> 0"
    using C2_pos v0 by linarith
  show ?thesis
    using a b v0 by (simp add: ssim_def mean sd cv Let_def Pow2_def)
qed

theorem ssim_identity_witness:
  "2 \<le> max_x (flat (gray_color 100)) * max_y (flat (gray_color 100))
   \<and> ssim (flat (gray_color 100)) (flat (gray_color 100)) = Num 1"
proof -
  have h: "2 \<le> max_x (flat (gray_color 100)) * max_y (flat (gray_color 100))"
    by (simp add: flat_def)
  show ?thesis
    using h ssim_identity [OF h] by simp
qed

section \<open>The dimension guard\<close>

text \<open>
  Claim C8. For every pair of images whose widths or heights differ (as \<open>dim\<close> reports
  them), the covariance fails with the dimension error and the similarity metric returns
  0; for a pair of equal dimensions the covariance returns a value, so the error branch of
  the metric is not taken.
\<close>

theorem dimension_guard:
  "(dim x \<noteq> dim y \<longrightarrow>
      covar x y = Inl (Err ''images must have same dimension'') \<and> ssim x y = Num 0)
   \<and> (dim x = dim y \<longrightarrow> (\<exists>c. covar x y = Inr c))"
  by (simp add: covar_def equalDim_def ssim_def dim_def Let_def)

theorem dimension_guard_witness:
  "dim (flat (gray_color 100)) \<noteq> dim (wide (gray_color 100))
   \<and> covar (flat (gray_color 100)) (wide (gray_color 100))
       = Inl (Err ''images must have same dimension'')
   \<and> ssim (flat (gray_color 100)) (wide (gray_color 100)) = Num 0
   \<and> dim (flat (gray_color 100)) = dim (flat (gray_color 7))
   \<and> (\<exists>c. covar (flat (gray_color 100)) (flat (gray_color 7)) = Inr c)"
proof -
  have d: "dim (flat (gray_color 100)) \<noteq> dim (wide (gray_color 100))"
    by (simp add: dim_def flat_def wide_def)
  have e: "dim (flat (gray_color 100)) = dim (flat (gray_color 7))"
    by (simp add: dim_def flat_def)
  show ?thesis
    using d e dimension_guard [of "flat (gray_color 100)" "wide (gray_color 100)"]
      dimension_guard [of "flat (gray_color 100)" "flat (gray_color 7)"]
    by blast
qed

section \<open>The mean\<close>

lemma points_2_1: "points 2 1 = [(0, 0), (1, 0)]"
  by code_simp

text \<open>
  Claim C4. The claim says that \<open>mean\<close> is the sum of the luminances divided by the number
  of points \<open>N\<close>. The code divides by \<open>N - 1\<close> (lemma \<open>mean_Num\<close>): for two points of
  luminance 100 it returns 200, and the arithmetic mean is 100. (The standard deviation
  and the covariance divide by \<open>N - 1\<close>, as the claim says: lemmas \<open>stdev_Num\<close> and
  \<open>covar_Num\<close>.)
\<close>

theorem mean_of_two_equal_points:
  "mean (flat (gray_color 100)) = Num 200 \<and> arithmetic_mean (flat (gray_color 100)) = 100"
  by (simp add: mean_def arithmetic_mean_def pixel_sum_def lum_def dim_def flat_def
      points_2_1 getPixVal_def gray_color_def)

section \<open>The probed quality\<close>

text \<open>
  Claim C5, as amended. At every attempt with \<open>minQ < maxQ\<close> the probed quality is the
  integer midpoint of the bracket, a half rounded down, towards \<open>minQ\<close>; it lies in the
  bracket, below \<open>maxQ\<close>.
\<close>

theorem midpoint_floor:
  assumes "lo < hi"
  shows "midpoint lo hi = \<lfloor>(real_of_int lo + real_of_int hi) / 2\<rfloor>
         \<and> lo \<le> midpoint lo hi \<and> midpoint lo hi < hi"
proof -
  have "(hi - lo) sdiv 2 = (hi - lo) div 2"
    using assms by (simp add: signed_divide_int_def sgn_if)
  then have m: "midpoint lo hi = (lo + hi) div 2"
    unfolding midpoint_def by linarith
  have "\<lfloor>(real_of_int lo + real_of_int hi) / 2\<rfloor> = (lo + hi) div 2"
    using floor_divide_of_int_eq [of "lo + hi" 2, where ?'a = real] by simp
  with m assms show ?thesis by linarith
qed

theorem midpoint_floor_witness:
  "(40::int) < 95 \<and> midpoint 40 95 = \<lfloor>(real_of_int 40 + real_of_int 95) / 2\<rfloor>
         \<and> 40 \<le> midpoint 40 95 \<and> midpoint 40 95 < 95"
  using midpoint_floor [of 40 95] by simp

text \<open>
  The claim as stated (a half rounded towards \<open>maxQ\<close>) fails for the default bracket: the
  code probes 67, and the midpoint 67.5 rounded towards \<open>maxQ\<close> is 68.
\<close>

theorem midpoint_rounds_down_counterexample:
  "midpoint 40 95 = 67 \<and> midpoint_ties_up 40 95 = 68"
  by (simp add: midpoint_def midpoint_ties_up_def signed_divide_int_def)

section \<open>The loop body\<close>

lemma update_best_fields [simp]:
  "minQ (update_best tgt q n i s) = minQ s"
  "maxQ (update_best tgt q n i s) = maxQ s"
  "attempt (update_best tgt q n i s) = attempt s"
  "stdout (update_best tgt q n i s) = stdout s"
  "fallbackQ (update_best tgt q n i s) = fallbackQ s"
  "fallbackSize (update_best tgt q n i s) = fallbackSize s"
  "fallbackIndex (update_best tgt q n i s) = fallbackIndex s"
  by (simp_all add: update_best_def)

lemma update_fallback_fields [simp]:
  "minQ (update_fallback osz q n i s) = minQ s"
  "maxQ (update_fallback osz q n i s) = maxQ s"
  "attempt (update_fallback osz q n i s) = attempt s"
  "stdout (update_fallback osz q n i s) = stdout s"
  "bestSize (update_fallback osz q n i s) = bestSize s"
  "bestQ (update_fallback osz q n i s) = bestQ s"
  "bestIndex (update_fallback osz q n i s) = bestIndex s"
  by (simp_all add: update_fallback_def Let_def)

lemma decide_fields [simp]:
  "stdout (decide osz tgt loops q n i s) = stdout s"
  "fallbackQ (decide osz tgt loops q n i s) = fallbackQ s"
  "fallbackSize (decide osz tgt loops q n i s) = fallbackSize s"
  "fallbackIndex (decide osz tgt loops q n i s) = fallbackIndex s"
  "bestSize (decide osz tgt loops q n i s) = bestSize s"
  "bestQ (decide osz tgt loops q n i s) = bestQ s"
  "bestIndex (decide osz tgt loops q n i s) = bestIndex s"
  by (simp_all add: decide_def)

lemma attempt_body_Next:
  assumes "attempt_body cd G osz tgt loops s = StepNext s'"
  obtains i data where "minQ s \<noteq> maxQ s"
    and "compare cd G (midpoint (minQ s) (maxQ s)) = Inr (i, data)"
    and "s' = update_fallback osz (midpoint (minQ s) (maxQ s)) (int (length data)) i
             (update_best tgt (midpoint (minQ s) (maxQ s)) (int (length data)) i
               (decide osz tgt loops (midpoint (minQ s) (maxQ s)) (int (length data)) i
                 (s\<lparr>stdout := stdout s @
                     [Attempt (attempt s) (midpoint (minQ s) (maxQ s)) i
                        (int (length data))]\<rparr>)))"
  using assms by (auto simp: attempt_body_def Let_def split: if_splits sum.splits prod.splits)

lemma attempt_body_Break:
  "attempt_body cd G osz tgt loops s = StepBreak s' \<Longrightarrow> s' = s \<and> minQ s = maxQ s"
  by (auto simp: attempt_body_def Let_def split: if_splits sum.splits prod.splits)

lemma midpoint_between:
  assumes "lo < hi"
  shows "lo \<le> midpoint lo hi" "midpoint lo hi < hi"
proof -
  have "(hi - lo) sdiv 2 = (hi - lo) div 2"
    using assms by (simp add: signed_divide_int_def sgn_if)
  then show "lo \<le> midpoint lo hi" "midpoint lo hi < hi"
    using assms unfolding midpoint_def by linarith+
qed

lemma attempt_after_body:
  assumes "attempt_body cd G osz tgt loops s = StepNext s'"
  shows "attempt s' = attempt s \<or> attempt s' = loops"
proof -
  from assms obtain i data
    where "minQ s \<noteq> maxQ s" and "compare cd G (midpoint (minQ s) (maxQ s)) = Inr (i, data)"
      and s': "s' = update_fallback osz (midpoint (minQ s) (maxQ s)) (int (length data)) i
             (update_best tgt (midpoint (minQ s) (maxQ s)) (int (length data)) i
               (decide osz tgt loops (midpoint (minQ s) (maxQ s)) (int (length data)) i
                 (s\<lparr>stdout := stdout s @
                     [Attempt (attempt s) (midpoint (minQ s) (maxQ s)) i
                        (int (length data))]\<rparr>)))"
    by (rule attempt_body_Next)
  show ?thesis unfolding s' by (simp add: decide_def)
qed

section \<open>The bracket\<close>

text \<open>
  An attempt that does not stop the search leaves the bracket ordered and strictly
  narrower; one that stops it sets \<open>attempt\<close> to \<open>loops\<close> and leaves the bracket as it was.
\<close>

lemma bracket_step:
  assumes "attempt_body cd G osz tgt loops s = StepNext s'" and "minQ s \<le> maxQ s"
  shows "minQ s \<le> minQ s' \<and> minQ s' \<le> maxQ s' \<and> maxQ s' \<le> maxQ s
         \<and> (attempt s' = loops \<and> minQ s' = minQ s \<and> maxQ s' = maxQ s
            \<or> attempt s' = attempt s \<and> maxQ s' - minQ s' < maxQ s - minQ s)"
proof -
  from assms(1) obtain i data where ne: "minQ s \<noteq> maxQ s"
    and "compare cd G (midpoint (minQ s) (maxQ s)) = Inr (i, data)"
    and s': "s' = update_fallback osz (midpoint (minQ s) (maxQ s)) (int (length data)) i
             (update_best tgt (midpoint (minQ s) (maxQ s)) (int (length data)) i
               (decide osz tgt loops (midpoint (minQ s) (maxQ s)) (int (length data)) i
                 (s\<lparr>stdout := stdout s @
                     [Attempt (attempt s) (midpoint (minQ s) (maxQ s)) i
                        (int (length data))]\<rparr>)))"
    by (rule attempt_body_Next)
  from ne assms(2) have lt: "minQ s < maxQ s" by simp
  note m = midpoint_between [OF lt]
  show ?thesis
    using m lt unfolding s' by (simp add: decide_def)
qed

text \<open>
  Entered with \<open>0 \<le> minQ \<le> maxQ \<le> 100\<close>, the loop tests its condition only in states
  where this holds.
\<close>

lemma bracket_invariant:
  assumes "loop_head cd G osz tgt loops s0 s"
    and "0 \<le> minQ s0" "minQ s0 \<le> maxQ s0" "maxQ s0 \<le> 100"
  shows "0 \<le> minQ s \<and> minQ s \<le> maxQ s \<and> maxQ s \<le> 100"
  using assms
proof (induction rule: loop_head.induct)
  case entry
  then show ?case by simp
next
  case (again s s')
  then have "0 \<le> minQ s \<and> minQ s \<le> maxQ s \<and> maxQ s \<le> 100" by simp
  with bracket_step [OF again.hyps(3)] show ?case by simp
qed

lemma wrap64_id: "- (2 ^ 63) \<le> i \<Longrightarrow> i \<le> max_int \<Longrightarrow> wrap64 i = i"
  by (simp add: wrap64_def max_int_def)

text \<open>
  With \<open>loops\<close> below the largest machine integer the increment of \<open>attempt\<close> never wraps,
  and the loop returns.
\<close>

lemma search_loop_terminates:
  assumes "loops < max_int" and "- (2 ^ 63) \<le> attempt s"
  shows "\<exists>r. search_loop cd G osz tgt loops s = Some r"
  using assms(2)
proof (induction "nat (loops + 1 - attempt s)" arbitrary: s rule: less_induct)
  case less
  show ?case
  proof (cases "attempt s \<le> loops")
    case False
    then show ?thesis by (subst search_loop.simps) simp
  next
    case le: True
    show ?thesis
    proof (cases "attempt_body cd G osz tgt loops s")
      case (StepPanic msg)
      with le show ?thesis by (subst search_loop.simps) simp
    next
      case (StepBreak s')
      with le show ?thesis by (subst search_loop.simps) simp
    next
      case (StepNext s')
      from attempt_after_body [OF StepNext]
      have att: "attempt s' = loops \<or> attempt s' = attempt s"
        by auto
      let ?t = "s'\<lparr>attempt := wrap64 (attempt s' + 1)\<rparr>"
      from att le less.prems assms(1)
      have w: "wrap64 (attempt s' + 1) = attempt s' + 1"
        by (intro wrap64_id) auto
      have "nat (loops + 1 - attempt ?t) < nat (loops + 1 - attempt s)"
        using att le by (auto simp: w)
      moreover have "- (2 ^ 63) \<le> attempt ?t"
        using att le less.prems by (auto simp: w)
      ultimately obtain r where "search_loop cd G osz tgt loops ?t = Some r"
        using less.hyps by blast
      with le StepNext show ?thesis by (subst search_loop.simps) simp
    qed
  qed
qed

text \<open>
  Entered with \<open>attempt = 1\<close> and \<open>loops\<close> below the largest machine integer, the loop
  has printed at most \<open>attempt - 1\<close> attempts whenever it tests its condition, and
  \<open>attempt\<close> is at most \<open>loops + 1\<close>: at most \<open>loops\<close> attempts are evaluated.
\<close>

lemma attempts_bounded:
  assumes "loop_head cd G osz tgt loops s0 s" and "attempt s0 = 1" and "0 < loops"
    and "loops < max_int"
  shows "int (length (stdout s)) - int (length (stdout s0)) \<le> attempt s - 1
         \<and> 1 \<le> attempt s \<and> attempt s \<le> loops + 1"
  using assms
proof (induction rule: loop_head.induct)
  case entry
  then show ?case by simp
next
  case (again s s')
  then have IH: "int (length (stdout s)) - int (length (stdout s0)) \<le> attempt s - 1"
    "1 \<le> attempt s" by simp_all
  from again.hyps(3) obtain i data
    where "minQ s \<noteq> maxQ s" and "compare cd G (midpoint (minQ s) (maxQ s)) = Inr (i, data)"
      and s': "s' = update_fallback osz (midpoint (minQ s) (maxQ s)) (int (length data)) i
             (update_best tgt (midpoint (minQ s) (maxQ s)) (int (length data)) i
               (decide osz tgt loops (midpoint (minQ s) (maxQ s)) (int (length data)) i
                 (s\<lparr>stdout := stdout s @
                     [Attempt (attempt s) (midpoint (minQ s) (maxQ s)) i
                        (int (length data))]\<rparr>)))"
    by (rule attempt_body_Next)
  have len: "length (stdout s') = Suc (length (stdout s))"
    unfolding s' by simp
  from attempt_after_body [OF again.hyps(3)]
  have att: "attempt s' = attempt s \<or> attempt s' = loops" .
  with again.hyps(2) IH(2) again.prems(3)
  have w: "wrap64 (attempt s' + 1) = attempt s' + 1"
    by (intro wrap64_id) auto
  from att again.hyps(2) IH len show ?case
    by (auto simp: w)
qed

text \<open>The state in which the loop ends is one in which it tested its condition.\<close>

lemma ended_is_loop_head:
  assumes "search_loop cd G osz tgt loops s = Some y"
  shows "\<forall>s0. loop_head cd G osz tgt loops s0 s \<longrightarrow>
           loop_head cd G osz tgt loops s0 (end_state y)"
  using assms
proof (induction cd G osz tgt loops s y
         rule: search_loop.raw_induct [rotated 1, consumes 1, case_names step])
  case 1: (step f cd G osz tgt loops s y)
  show ?case
  proof (cases "attempt s \<le> loops")
    case False
    with 1(2) show ?thesis by auto
  next
    case le: True
    show ?thesis
    proof (cases "attempt_body cd G osz tgt loops s")
      case (StepPanic msg)
      with le 1(2) show ?thesis by auto
    next
      case (StepBreak s')
      with le 1(2) attempt_body_Break [OF StepBreak] show ?thesis by auto
    next
      case (StepNext s')
      with le 1(2)
      have "f cd G osz tgt loops (s'\<lparr>attempt := wrap64 (attempt s' + 1)\<rparr>) = Some y"
        by simp
      from 1(1) [OF this] loop_head.again [OF _ le StepNext]
      show ?thesis by blast
    qed
  qed
qed

section \<open>The examples, evaluated\<close>

lemma gray_orange: "example_gray orange = 124"
  by (simp add: example_gray_def orange_def)

lemma gray_gray: "example_gray (gray_color 124) = 124" "example_gray (gray_color 0) = 0"
  by (simp_all add: example_gray_def gray_color_def)

lemma is_grey_simps: "is_grey (gray_color v)" "\<not> is_grey orange"
  by (simp_all add: is_grey_def gray_color_def orange_def Let_def)

lemma getPixVal_gray: "getPixVal (gray_color 124) = Num 124" "getPixVal (gray_color 0) = Num 0"
  by (simp_all add: getPixVal_def gray_color_def)

lemma convertToGray_flat:
  "convertToGray (table_codec tbl) (flat c) = two (example_gray c)"
  by (auto simp: convertToGray_def flat_def dim_def table_codec_def fun_eq_iff two_def)

lemma C1_val: "C1 = 2601 / 400"
  by (simp add: C1_def K1_def L_def power2_eq_square)

lemma C2_val: "C2 = 23409 / 400"
  by (simp add: C2_def K2_def L_def power2_eq_square)

lemma ssim_same: "ssim (two 124) (two 124) = Num 1"
  by (simp add: ssim_def mean_def stdev_def covar_def equalDim_def dim_def two_def points_2_1
      getPixVal_gray Let_def Pow2_def fsub_def C1_val C2_val)

lemma ssim_diff:
  "ssim (two 124) (two 0)
     = Num ((2601 / 400 * (23409 / 400)) / ((61504 + 2601 / 400) * (30752 + 23409 / 400)))"
  by (simp add: ssim_def mean_def stdev_def covar_def equalDim_def dim_def two_def points_2_1
      getPixVal_gray Let_def Pow2_def fsub_def C1_val C2_val)

lemma ssim_diff_order:
  "flt (ssim (two 124) (two 0)) (Num (9999 / 10000))"
  "\<not> fle (Num (9999 / 10000)) (ssim (two 124) (two 0))"
  "\<not> flt (Num (9999 / 10000)) (ssim (two 124) (two 0))"
  by (simp_all add: ssim_diff)

lemma compare_table:
  assumes "tbl q = (n, v)" and "example_gray (gray_color v) = v"
  shows "compare (table_codec tbl) (two g) q = Inr (ssim (two g) (two v), v # replicate n 0)"
proof -
  have "At (two g) 0 0 = gray_color g" by (simp add: two_def)
  then have e: "encodeToJPEGBytes (table_codec tbl) (two g) q = Inr (v # replicate n 0)"
    using assms(1) by (simp add: encodeToJPEGBytes_def table_codec_def is_grey_simps)
  have d: "jpeg_Decode (table_codec tbl) (v # replicate n 0) = Inr (flat (gray_color v))"
    by (simp add: table_codec_def)
  show ?thesis
    by (simp add: compare_def e d convertToGray_flat assms(2))
qed

lemma encode_orange:
  "tbl q = (n, v) \<Longrightarrow>
   encodeToJPEGBytes (table_codec tbl) (flat orange) q = Inr (v # replicate (n + 40) 0)"
  by (simp add: encodeToJPEGBytes_def table_codec_def flat_def is_grey_simps)

lemma attempt_table:
  assumes "minQ s \<noteq> maxQ s" and "tbl (midpoint (minQ s) (maxQ s)) = (n, v)"
    and "example_gray (gray_color v) = v"
  shows "attempt_body (table_codec tbl) (two g) osz tgt loops s =
     StepNext (update_fallback osz (midpoint (minQ s) (maxQ s)) (int (Suc n)) (ssim (two g) (two v))
       (update_best tgt (midpoint (minQ s) (maxQ s)) (int (Suc n)) (ssim (two g) (two v))
         (decide osz tgt loops (midpoint (minQ s) (maxQ s)) (int (Suc n)) (ssim (two g) (two v))
           (s\<lparr>stdout := stdout s @
               [Attempt (attempt s) (midpoint (minQ s) (maxQ s)) (ssim (two g) (two v))
                  (int (Suc n))]\<rparr>))))"
  using assms compare_table [of tbl "midpoint (minQ s) (maxQ s)" n v g]
  by (simp add: attempt_body_def Let_def del: of_nat_Suc)

lemma checkArgs_example:
  assumes "0 \<le> lo" "lo \<le> 99" "1 \<le> hi" "hi \<le> 100" "0 < n"
    and "\<not> stat_IsNotExist w ''in.png''" "\<not> stat_ok w ''out.jpg''"
  shows "checkArgs w ''in.png'' ''out.jpg'' False hi lo (Num (9999 / 10000)) n = (True, [])"
  using assms by (simp add: checkArgs_def checkArgs_msg_def fgt_def Let_def)

lemma main_example:
  assumes "0 \<le> lo" "lo \<le> 99" "1 \<le> hi" "hi \<le> 100" "0 < n"
    and "\<not> stat_IsNotExist w ''in.png''" "\<not> stat_ok w ''out.jpg''"
    and "readImage w ''in.png'' = Inr (flat orange)" "getFilesize w ''in.png'' = Inr b"
  shows "main (table_codec tbl) w (example_args lo hi n) =
    (case search_loop (table_codec tbl) (two 124) b (Num (9999 / 10000)) n
            (initial_search lo hi b) of
       None \<Rightarrow> None
     | Some (Panicked msg s) \<Rightarrow>
         Some \<lparr>status = Panic msg, printed = stdout s, destination = NotWritten\<rparr>
     | Some (Finished s) \<Rightarrow>
         Some (finish (table_codec tbl) w (example_args lo hi n) (flat orange) b s))"
  using checkArgs_example [OF assms(1-7)] assms(8,9)
  by (simp add: main_def example_args_def convertToGray_flat gray_orange Let_def
        split: option.split search_end.split)

lemma example_world_simps:
  "\<not> stat_IsNotExist (example_world b c) p" "\<not> stat_ok (example_world b c) p"
  "readImage (example_world b c) p = Inr (flat orange)"
  "getFilesize (example_world b c) p = Inr b"
  "\<not> isJpeg (example_world b c) p"
  "os_Create (example_world b c) p = c"
  "file_Write (example_world b c) data = (length data, None)"
  by (simp_all add: example_world_def)

lemma full_disk_world_simps:
  "\<not> stat_IsNotExist full_disk_world p" "\<not> stat_ok full_disk_world p"
  "readImage full_disk_world p = Inr (flat orange)"
  "getFilesize full_disk_world p = Inr 100"
  "\<not> isJpeg full_disk_world p"
  "os_Create full_disk_world p = None"
  "file_Write full_disk_world data = (10, Some (Err ''write out.jpg: no space left on device''))"
  by (simp_all add: full_disk_world_def example_world_def)

lemma mids: "midpoint 40 95 = 67" "midpoint 40 66 = 53" "midpoint 60 50 = 55"
  by (simp_all add: midpoint_def signed_divide_int_def)

lemmas run_simps = attempt_table mids gray_gray decide_def update_best_def update_fallback_def
  ssim_same ssim_diff_order wrap64_def fge_def fgt_def

lemma good_search:
  assumes "lo \<noteq> hi"
  shows "search_loop (table_codec good_table) (two 124) 100 (Num (9999 / 10000)) 1
           (initial_search lo hi 100)
   = Some (Finished
        \<lparr>minQ = lo, maxQ = max (midpoint lo hi - 1) lo, attempt = 2,
         bestSize = 50, bestQ = midpoint lo hi, bestIndex = Num 1,
         fallbackQ = 0, fallbackSize = 50, fallbackIndex = Num 0,
         stdout = [OriginalSize 100, Attempt 1 (midpoint lo hi) (Num 1) 50]\<rparr>)"
  using assms
  apply (simp add: initial_search_def)
  apply (subst search_loop.simps)
  apply (simp add: run_simps good_table_def)
  apply (subst search_loop.simps)
  apply simp
  done

lemma good_run:
  "main (table_codec good_table) (example_world 100 None) (example_args 40 95 1) =
     Some \<lparr>status = Returned,
           printed = [OriginalSize 100, Attempt 1 67 (Num 1) 50, FinalImage 67 (Num 1) 50,
                      Savings 50 100],
           destination = Written (124 # replicate 89 0)\<rparr>"
  by (simp add: main_example example_world_simps good_search mids)
     (simp add: finish_def encode_orange [of good_table _ 49 124] good_table_def save_def
        example_world_simps example_args_def)

lemma fallback_search_1:
  "search_loop (table_codec fallback_table) (two 124) 100 (Num (9999 / 10000)) 1
     (initial_search 40 95 100)
   = Some (Finished
        \<lparr>minQ = 40, maxQ = 66, attempt = 2, bestSize = 100, bestQ = 0, bestIndex = Num 0,
         fallbackQ = 0, fallbackSize = 150, fallbackIndex = Num 0,
         stdout = [OriginalSize 100, Attempt 1 67 (Num 1) 150]\<rparr>)"
  apply (simp add: initial_search_def)
  apply (subst search_loop.simps)
  apply (simp add: run_simps fallback_table_def)
  apply (subst search_loop.simps)
  apply simp
  done

lemma fallback_search_2:
  "search_loop (table_codec fallback_table) (two 124) 100 (Num (9999 / 10000)) 2
     (initial_search 40 95 100)
   = Some (Finished
        \<lparr>minQ = 54, maxQ = 66, attempt = 3, bestSize = 100, bestQ = 0, bestIndex = Num 0,
         fallbackQ = 0, fallbackSize = 150, fallbackIndex = Num 0,
         stdout = [OriginalSize 100, Attempt 1 67 (Num 1) 150,
                   Attempt 2 53 (ssim (two 124) (two 0)) 80]\<rparr>)"
  apply (simp add: initial_search_def)
  apply (subst search_loop.simps)
  apply (simp add: run_simps fallback_table_def)
  apply (subst search_loop.simps)
  apply (simp add: run_simps fallback_table_def)
  apply (subst search_loop.simps)
  apply simp
  done

section \<open>What the search encodes\<close>

lemma attempt_line_of_gray:
  assumes "compare cd G q = Inr (i, data)"
  shows "sized_by cd G (Attempt k q i (int (length data)))"
    and "scored_against cd G (Attempt k q i (int (length data)))"
  using assms
  by (auto simp: sized_by_def scored_against_def encoded_size_def compare_def
           split: sum.splits)

lemma loop_head_lines:
  assumes "loop_head cd G osz tgt loops s0 s"
    and "list_all (\<lambda>row. sized_by cd G row \<and> scored_against cd G row) (stdout s0)"
  shows "list_all (\<lambda>row. sized_by cd G row \<and> scored_against cd G row) (stdout s)"
  using assms
proof (induction rule: loop_head.induct)
  case entry
  then show ?case by simp
next
  case (again s s')
  from again.hyps(3) obtain i data
    where "minQ s \<noteq> maxQ s"
      and c: "compare cd G (midpoint (minQ s) (maxQ s)) = Inr (i, data)"
      and s': "s' = update_fallback osz (midpoint (minQ s) (maxQ s)) (int (length data)) i
             (update_best tgt (midpoint (minQ s) (maxQ s)) (int (length data)) i
               (decide osz tgt loops (midpoint (minQ s) (maxQ s)) (int (length data)) i
                 (s\<lparr>stdout := stdout s @
                     [Attempt (attempt s) (midpoint (minQ s) (maxQ s)) i
                        (int (length data))]\<rparr>)))"
    by (rule attempt_body_Next)
  from again.IH again.prems attempt_line_of_gray [OF c]
  show ?case by (simp add: s')
qed

text \<open>
  Claim C1, as amended. For every attempt of the search, the candidate evaluation invokes
  the encoder at the chosen quality on the grey copy of the source image, the image
  \<open>main\<close> hands to \<open>compare\<close>: every attempt the program prints has as its size the length
  of the encoding of the grey copy at the attempt's quality, and as its index the metric of
  the grey copy and the grey copy of the decoded encoding. The grey copy is both the
  encoder's input and the reference of the metric. This holds of the lines of a run that
  returns or panics, and of the lines printed so far whenever the loop tests its condition.
\<close>

theorem candidates_come_from_gray_copy:
  assumes "readImage w (src_arg a) = Inr original"
  shows "(main cd w a = Some r \<longrightarrow>
            list_all (\<lambda>row. sized_by cd (convertToGray cd original) row
                          \<and> scored_against cd (convertToGray cd original) row) (printed r))
       \<and> (loop_head cd (convertToGray cd original) osz (target_flag a) (loops_flag a)
              (initial_search (min_flag a) (max_flag a) osz) s \<longrightarrow>
            list_all (\<lambda>row. sized_by cd (convertToGray cd original) row
                          \<and> scored_against cd (convertToGray cd original) row) (stdout s))"
proof (intro conjI impI)
  let ?G = "convertToGray cd original"
  let ?P = "\<lambda>row. sized_by cd ?G row \<and> scored_against cd ?G row"
  have other [simp]: "?P (OriginalSize n)" "?P (FinalImage q i n)" "?P (Savings n m)"
    "?P NoMatchNotSaving" "?P NoMatchCopying" "?P NoMatchFallback" "?P (ErrorMsg msg)"
    "?P Usage" "?P (LogLine e)" for n m q i msg e
    by (simp_all add: sized_by_def scored_against_def)
  {
    assume "loop_head cd ?G osz (target_flag a) (loops_flag a)
              (initial_search (min_flag a) (max_flag a) osz) s"
    then show "list_all ?P (stdout s)"
      by (rule loop_head_lines) (simp add: initial_search_def)
  }
  assume m: "main cd w a = Some r"
  show "list_all ?P (printed r)"
  proof (cases "help_flag a")
    case True
    with m show ?thesis by (auto simp: main_def)
  next
    case nohelp: False
    show ?thesis
    proof (cases "fst (checkArgs w (src_arg a) (dest_arg a) (force_flag a) (max_flag a)
                         (min_flag a) (target_flag a) (loops_flag a))")
      case False
      with nohelp m show ?thesis
        by (auto simp: main_def checkArgs_def Let_def split: if_splits)
    next
      case ok: True
      show ?thesis
      proof (cases "getFilesize w (src_arg a)")
        case (Inl e)
        with nohelp ok m assms show ?thesis
          by (cases e) (auto simp: main_def split: prod.splits)
      next
        case (Inr size0)
        let ?s0 = "initial_search (min_flag a) (max_flag a) size0"
        from nohelp ok m assms Inr obtain y where
          run: "search_loop cd ?G size0 (target_flag a) (loops_flag a) ?s0 = Some y"
          and r: "r = (case y of
                  Panicked msg s \<Rightarrow>
                    \<lparr>status = Panic msg, printed = stdout s, destination = NotWritten\<rparr>
                | Finished s \<Rightarrow> finish cd w a original size0 s)"
          by (auto simp: main_def Let_def split: prod.splits option.splits search_end.splits)
        have "loop_head cd ?G size0 (target_flag a) (loops_flag a) ?s0 (end_state y)"
          using ended_is_loop_head [OF run] loop_head.entry by blast
        then have lines: "list_all ?P (stdout (end_state y))"
          by (rule loop_head_lines) (simp add: initial_search_def)
        show ?thesis
        proof (cases y)
          case (Panicked msg s)
          with lines r show ?thesis by simp
        next
          case (Finished s)
          with lines r show ?thesis
            by (auto simp: finish_def save_def Let_def
                     split: sum.splits error.splits prod.splits option.splits)
        qed
      qed
    qed
  qed
qed

theorem candidates_come_from_gray_copy_witness:
  "readImage (example_world 100 None) (src_arg (example_args 40 95 1)) = Inr (flat orange)
   \<and> main (table_codec good_table) (example_world 100 None) (example_args 40 95 1) =
     Some \<lparr>status = Returned,
           printed = [OriginalSize 100, Attempt 1 67 (Num 1) 50, FinalImage 67 (Num 1) 50,
                      Savings 50 100],
           destination = Written (124 # replicate 89 0)\<rparr>
   \<and> list_all (\<lambda>row. sized_by (table_codec good_table)
                        (convertToGray (table_codec good_table) (flat orange)) row
                  \<and> scored_against (table_codec good_table)
                        (convertToGray (table_codec good_table) (flat orange)) row)
        [OriginalSize 100, Attempt 1 67 (Num 1) 50, FinalImage 67 (Num 1) 50, Savings 50 100]
   \<and> loop_head (table_codec good_table) (convertToGray (table_codec good_table) (flat orange))
        100 (target_flag (example_args 40 95 1)) (loops_flag (example_args 40 95 1))
        (initial_search (min_flag (example_args 40 95 1)) (max_flag (example_args 40 95 1)) 100)
        (initial_search (min_flag (example_args 40 95 1)) (max_flag (example_args 40 95 1)) 100)
   \<and> list_all (\<lambda>row. sized_by (table_codec good_table)
                        (convertToGray (table_codec good_table) (flat orange)) row
                  \<and> scored_against (table_codec good_table)
                        (convertToGray (table_codec good_table) (flat orange)) row)
        (stdout (initial_search (min_flag (example_args 40 95 1))
                   (max_flag (example_args 40 95 1)) 100))"
proof -
  have r: "readImage (example_world 100 None) (src_arg (example_args 40 95 1))
             = Inr (flat orange)"
    by (simp add: example_world_def)
  note h = loop_head.entry [of "table_codec good_table"
      "convertToGray (table_codec good_table) (flat orange)" 100
      "target_flag (example_args 40 95 1)" "loops_flag (example_args 40 95 1)"
      "initial_search (min_flag (example_args 40 95 1)) (max_flag (example_args 40 95 1)) 100"]
  from candidates_come_from_gray_copy [OF r, where cd = "table_codec good_table"
      and r = "\<lparr>status = Returned,
           printed = [OriginalSize 100, Attempt 1 67 (Num 1) 50, FinalImage 67 (Num 1) 50,
                      Savings 50 100],
           destination = Written (124 # replicate 89 0)\<rparr>"
      and osz = 100
      and s = "initial_search (min_flag (example_args 40 95 1))
                 (max_flag (example_args 40 95 1)) 100"]
    good_run r h
  show ?thesis by simp
qed

text \<open>
  The claim as stated (the size is that of the encoding of the original, coloured image)
  fails: with the example codec the attempt at quality 67 is printed with 50 bytes, the
  length of the encoding of the grey copy, and the encoding of the original at quality 67
  has 90 bytes.
\<close>

theorem candidate_size_is_not_of_original:
  "main (table_codec good_table) (example_world 100 None) (example_args 40 95 1) =
     Some \<lparr>status = Returned,
           printed = [OriginalSize 100, Attempt 1 67 (Num 1) 50, FinalImage 67 (Num 1) 50,
                      Savings 50 100],
           destination = Written (124 # replicate 89 0)\<rparr>
   \<and> encoded_size (table_codec good_table) (flat orange) 67 = Some 90
   \<and> \<not> list_all (sized_by (table_codec good_table) (flat orange))
        [OriginalSize 100, Attempt 1 67 (Num 1) 50, FinalImage 67 (Num 1) 50, Savings 50 100]"
  by (simp add: good_run)
     (simp add: encode_orange [of good_table _ 49 124] good_table_def sized_by_def
        encoded_size_def)

section \<open>The fallback candidate\<close>

text \<open>
  Claim C2. The claim says that the fallback candidate is initialised from the first
  attempt and then holds the candidate whose size is closest to the original size without
  exceeding it. In this run the original has 100 bytes, the first attempt (quality 67)
  gives 150 bytes and the second (quality 53) gives 80 bytes. The program ends with the
  fallback of 150 bytes, quality 0 and index 0: the first attempt set the size only, and
  the candidate of 80 bytes was not taken. It then encodes the output at quality 0.
\<close>

theorem fallback_keeps_oversized_first_candidate:
  "main (table_codec fallback_table) (example_world 100 None) (example_args 40 95 2) =
     Some \<lparr>status = Returned,
           printed = [OriginalSize 100, Attempt 1 67 (Num 1) 150,
                      Attempt 2 53 (ssim (two 124) (two 0)) 80,
                      NoMatchFallback, FinalImage 0 (Num 0) 150, Savings 150 100],
           destination = Written (0 # replicate 119 0)\<rparr>"
  by (simp add: main_example example_world_simps fallback_search_2)
     (simp add: finish_def encode_orange [of fallback_table _ 79 0] fallback_table_def save_def
        example_world_simps example_args_def)

section \<open>The argument check\<close>

text \<open>
  Claim C3, as amended. Every configuration whose maximum quality is outside 1..100, whose
  minimum quality is outside 0..99, whose target is at most 0 or above 1, or whose number
  of attempts is at most 0 is rejected before the image is read: the program prints the
  complaint and the usage text and exits with status 1 (with \<open>-h\<close> it prints the usage text
  and returns), and no attempt is evaluated. The order of the two qualities is not checked.
\<close>

theorem invalid_ranges_rejected:
  assumes "max_flag a < 1 \<or> max_flag a > 100 \<or> min_flag a < 0 \<or> min_flag a > 99
           \<or> fle (target_flag a) (Num 0) \<or> fgt (target_flag a) (Num 1) \<or> loops_flag a \<le> 0"
  shows "\<exists>msg. msg \<noteq> [] \<and>
     main cd w a = Some (if help_flag a
        then \<lparr>status = Returned, printed = [Usage], destination = NotWritten\<rparr>
        else \<lparr>status = Exit 1, printed = [ErrorMsg msg, Usage], destination = NotWritten\<rparr>)"
proof -
  let ?msg = "checkArgs_msg w (src_arg a) (dest_arg a) (force_flag a) (max_flag a) (min_flag a)
                (target_flag a) (loops_flag a)"
  from assms have "?msg \<noteq> []"
    by (auto simp: checkArgs_msg_def Let_def)
  then show ?thesis
    by (intro exI [of _ ?msg]) (simp add: main_def checkArgs_def Let_def)
qed

theorem invalid_ranges_rejected_witness:
  "max_flag (example_args 40 101 6) > 100
   \<and> main (table_codec good_table) (example_world 100 None) (example_args 40 101 6) =
     Some \<lparr>status = Exit 1,
           printed = [ErrorMsg ''Maximum quality has to be between 1 and 100.'', Usage],
           destination = NotWritten\<rparr>"
proof -
  let ?a = "example_args 40 101 6"
  have h: "max_flag ?a < 1 \<or> max_flag ?a > 100 \<or> min_flag ?a < 0 \<or> min_flag ?a > 99
           \<or> fle (target_flag ?a) (Num 0) \<or> fgt (target_flag ?a) (Num 1) \<or> loops_flag ?a \<le> 0"
    by (simp add: example_args_def)
  from invalid_ranges_rejected [OF h, of "table_codec good_table" "example_world 100 None"]
  show ?thesis
    by (simp add: example_args_def main_def checkArgs_def checkArgs_msg_def example_world_def
          fgt_def Let_def)
qed

text \<open>
  The claim as stated fails for a minimum quality above the maximum: the configuration
  with minimum 60 and maximum 50 is accepted, the attempt at quality 55 is evaluated, and
  the output is written.
\<close>

theorem reversed_bracket_is_searched:
  "main (table_codec good_table) (example_world 100 None) (example_args 60 50 1) =
     Some \<lparr>status = Returned,
           printed = [OriginalSize 100, Attempt 1 55 (Num 1) 50, FinalImage 55 (Num 1) 50,
                      Savings 50 100],
           destination = Written (124 # replicate 89 0)\<rparr>"
  by (simp add: main_example example_world_simps good_search mids)
     (simp add: finish_def encode_orange [of good_table _ 49 124] good_table_def save_def
        example_world_simps example_args_def)

section \<open>The end of the loop\<close>

lemma stuck_step:
  assumes "minQ s = 40" "maxQ s = 95"
  shows "\<exists>s'. attempt_body (table_codec stuck_table) (two 124) 100 (Num (9999 / 10000))
                 max_int s = StepNext s'
     \<and> minQ s' = 40 \<and> maxQ s' = 95 \<and> attempt s' = max_int"
  using assms compare_table [of stuck_table 67 149 0 124]
  by (simp add: attempt_body_def mids stuck_table_def gray_gray ssim_diff decide_def Let_def)

lemma wrap_max: "wrap64 (max_int + 1) \<le> max_int"
  by (simp add: wrap64_def max_int_def)

lemma stuck_forever:
  assumes "search_loop cd G osz tgt loops s = Some y"
  shows "\<not> (cd = table_codec stuck_table \<and> G = two 124 \<and> osz = 100
            \<and> tgt = Num (9999 / 10000) \<and> loops = max_int
            \<and> minQ s = 40 \<and> maxQ s = 95 \<and> attempt s \<le> max_int)"
  using assms
proof (induction cd G osz tgt loops s y
         rule: search_loop.raw_induct [rotated 1, consumes 1, case_names step])
  case 1: (step f cd G osz tgt loops s y)
  show ?case
  proof
    assume bad: "cd = table_codec stuck_table \<and> G = two 124 \<and> osz = 100
            \<and> tgt = Num (9999 / 10000) \<and> loops = max_int
            \<and> minQ s = 40 \<and> maxQ s = 95 \<and> attempt s \<le> max_int"
    then obtain s' where b: "attempt_body cd G osz tgt loops s = StepNext s'"
      and s': "minQ s' = 40" "maxQ s' = 95" "attempt s' = max_int"
      using stuck_step [of s] by auto
    from bad have le: "attempt s \<le> loops" by simp
    from 1(2) b le
    have "f cd G osz tgt loops (s'\<lparr>attempt := wrap64 (attempt s' + 1)\<rparr>) = Some y"
      by simp
    from 1(1) [OF this] bad s' show False by (simp add: wrap_max)
  qed
qed

text \<open>
  Claim C6. The claim says that the loop ends within \<open>loops\<close> attempts, or earlier by a
  collapsed bracket or an early stop. With \<open>loops\<close> the largest machine integer, the
  default bracket, and a first attempt that neither shrinks the file nor reaches the
  target, the early stop sets \<open>attempt\<close> to \<open>loops\<close>, the increment wraps to the least
  integer, and the same attempt is made again without end: the program never returns.
  (The bracket stays ordered and within 0..100 and never widens: lemmas \<open>bracket_step\<close>
  and \<open>bracket_invariant\<close>; for \<open>loops\<close> below the largest machine integer the loop
  returns after at most \<open>loops\<close> attempts: lemmas \<open>search_loop_terminates\<close> and
  \<open>attempts_bounded\<close>.)
\<close>

theorem main_never_returns:
  "main (table_codec stuck_table) (example_world 100 None) (example_args 40 95 max_int) = None"
proof -
  have "search_loop (table_codec stuck_table) (two 124) 100 (Num (9999 / 10000)) max_int
          (initial_search 40 95 100) = None"
  proof (cases "search_loop (table_codec stuck_table) (two 124) 100 (Num (9999 / 10000))
                  max_int (initial_search 40 95 100)")
    case None
    then show ?thesis .
  next
    case (Some y)
    from stuck_forever [OF this] show ?thesis
      by (simp add: initial_search_def max_int_def)
  qed
  moreover have "(0::int) < max_int" by (simp add: max_int_def)
  ultimately show ?thesis
    by (simp add: main_example example_world_simps)
qed

section \<open>Writing the output\<close>

text \<open>\<open>save\<close> drops the error of \<open>f.Write\<close>: it returns no error and leaves what was written.\<close>

lemma save_drops_write_error:
  "os_Create w p = None \<Longrightarrow> file_Write w data = (k, Some e) \<Longrightarrow>
   save w p data = (None, [], Written (take k data))"
  by (simp add: save_def)

text \<open>
  Claim C9. The claim says that a failed output write is reported to the caller and the
  run does not report success. In the first run a candidate is found and \<open>os.Create\<close>
  fails for the destination: \<open>save\<close> logs the error, \<open>main\<close> ignores what \<open>save\<close>
  returns, prints the final image's line and the savings and returns normally, and nothing
  is written. In the second run the write fails after ten bytes: the program prints the
  same lines, returns normally and leaves a file of ten of the 90 bytes.
\<close>

theorem failed_write_is_reported_as_success:
  "main (table_codec good_table)
        (example_world 100 (Some (Err ''open out.jpg: permission denied'')))
        (example_args 40 95 1) =
     Some \<lparr>status = Returned,
           printed = [OriginalSize 100, Attempt 1 67 (Num 1) 50,
                      LogLine (Err ''open out.jpg: permission denied''),
                      FinalImage 67 (Num 1) 50, Savings 50 100],
           destination = NotWritten\<rparr>
   \<and> main (table_codec good_table) full_disk_world (example_args 40 95 1) =
     Some \<lparr>status = Returned,
           printed = [OriginalSize 100, Attempt 1 67 (Num 1) 50,
                      FinalImage 67 (Num 1) 50, Savings 50 100],
           destination = Written (124 # replicate 9 0)\<rparr>"
  by (simp add: main_example example_world_simps full_disk_world_simps good_search mids)
     (simp add: finish_def encode_orange [of good_table _ 49 124] good_table_def save_def
        example_world_simps full_disk_world_simps example_args_def)

section \<open>A fallback that no attempt recorded\<close>

lemma records_quality_cong:
  "fallbackSize t = fallbackSize s \<Longrightarrow> records_quality osz n t = records_quality osz n s"
  by (simp add: records_quality_def)

lemma update_fallback_keeps:
  assumes "\<not> records_quality osz n s"
  shows "fallbackQ (update_fallback osz q n i s) = fallbackQ s"
    and "fallbackIndex (update_fallback osz q n i s) = fallbackIndex s"
  using assms by (auto simp: records_quality_def update_fallback_def Let_def split: if_splits)

text \<open>The first attempt never records a quality, and a collapsed bracket evaluates nothing.\<close>

lemma first_attempt_never_records:
  "fallbackSize s = 0 \<Longrightarrow> \<not> records_quality osz n s"
  by (simp add: records_quality_def)

lemma collapsed_never_records:
  "minQ s = maxQ s \<Longrightarrow> \<not> attempt_records cd G osz s"
  by (simp add: attempt_records_def)

lemma unrecorded_invariant:
  assumes "loop_head cd G osz tgt loops s0 s"
    and "\<And>t. loop_head cd G osz tgt loops s0 t \<Longrightarrow> attempt t \<le> loops \<Longrightarrow>
              \<not> attempt_records cd G osz t"
  shows "fallbackQ s = fallbackQ s0 \<and> fallbackIndex s = fallbackIndex s0"
  using assms
proof (induction rule: loop_head.induct)
  case entry
  show ?case by simp
next
  case (again s s')
  from again.hyps(3) obtain i data
    where ne: "minQ s \<noteq> maxQ s"
      and c: "compare cd G (midpoint (minQ s) (maxQ s)) = Inr (i, data)"
      and s': "s' = update_fallback osz (midpoint (minQ s) (maxQ s)) (int (length data)) i
             (update_best tgt (midpoint (minQ s) (maxQ s)) (int (length data)) i
               (decide osz tgt loops (midpoint (minQ s) (maxQ s)) (int (length data)) i
                 (s\<lparr>stdout := stdout s @
                     [Attempt (attempt s) (midpoint (minQ s) (maxQ s)) i
                        (int (length data))]\<rparr>)))"
    by (rule attempt_body_Next)
  from again.prems [OF again.hyps(1,2)] ne c
  have "\<not> records_quality osz (int (length data)) s"
    by (simp add: attempt_records_def)
  then have nr: "\<not> records_quality osz (int (length data))
             (update_best tgt (midpoint (minQ s) (maxQ s)) (int (length data)) i
               (decide osz tgt loops (midpoint (minQ s) (maxQ s)) (int (length data)) i
                 (s\<lparr>stdout := stdout s @
                     [Attempt (attempt s) (midpoint (minQ s) (maxQ s)) i
                        (int (length data))]\<rparr>)))"
    by (subst records_quality_cong [of _ s]) simp_all
  from again.IH [OF again.prems] update_fallback_keeps [OF nr]
  show ?case by (simp add: s')
qed

text \<open>
  Claim C10. If no attempt of the search takes a branch of the fallback update that
  records a quality, and the outcome selection reaches the fallback re-encoding (no best
  candidate below the original size, copying not disabled, source not a JPEG), then the
  fallback quality is 0 and the fallback index is 0: the program prints the fallback line
  with quality 0 and index 0 and encodes the original image at quality 0.
\<close>

theorem unrecorded_fallback_is_quality_zero:
  assumes run: "search_loop cd G osz tgt loops (initial_search lo hi osz) = Some (Finished sf)"
    and norec: "\<And>t. loop_head cd G osz tgt loops (initial_search lo hi osz) t \<Longrightarrow>
                  attempt t \<le> loops \<Longrightarrow> \<not> attempt_records cd G osz t"
    and nobest: "\<not> bestSize sf < osz"
    and copy: "\<not> noCopy_flag a"
    and notjpeg: "\<not> isJpeg w (src_arg a)"
  shows "fallbackQ sf = 0 \<and> fallbackIndex sf = Num 0 \<and>
    finish cd w a original osz sf =
      (let lines = stdout sf @ [NoMatchFallback, FinalImage 0 (Num 0) (fallbackSize sf),
                                Savings (fallbackSize sf) osz]
       in case encodeToJPEGBytes cd original 0 of
            Inl (Err msg) \<Rightarrow> \<lparr>status = Panic msg, printed = lines, destination = NotWritten\<rparr>
          | Inr data \<Rightarrow>
              (case save w (dest_arg a) data of (err, logged, out) \<Rightarrow>
                 \<lparr>status = Returned, printed = lines @ logged, destination = out\<rparr>))"
proof -
  have "loop_head cd G osz tgt loops (initial_search lo hi osz) (end_state (Finished sf))"
    using ended_is_loop_head [OF run] loop_head.entry by blast
  then have "loop_head cd G osz tgt loops (initial_search lo hi osz) sf" by simp
  from unrecorded_invariant [OF this norec]
  have q: "fallbackQ sf = 0" and i: "fallbackIndex sf = Num 0"
    by (simp_all add: initial_search_def)
  show ?thesis
    using nobest copy notjpeg by (simp add: q i finish_def)
qed

text \<open>
  A run of one attempt: the loop tests its condition at the entry and once more, with
  \<open>attempt = 2\<close>.
\<close>

lemma single_attempt_heads:
  assumes "loop_head cd G osz tgt 1 (initial_search lo hi osz) t"
  shows "t = initial_search lo hi osz \<or> 1 < attempt t"
  using assms
proof (induction rule: loop_head.induct)
  case entry
  show ?case by simp
next
  case (again s s')
  then have "s = initial_search lo hi osz" by auto
  then have "attempt s = 1" by (simp add: initial_search_def)
  with attempt_after_body [OF again.hyps(3)] have "attempt s' = 1" by auto
  then show ?case by (simp add: wrap64_def)
qed

theorem unrecorded_fallback_is_quality_zero_witness:
  "search_loop (table_codec fallback_table) (two 124) 100 (Num (9999 / 10000)) 1
     (initial_search 40 95 100)
     = Some (Finished
        \<lparr>minQ = 40, maxQ = 66, attempt = 2, bestSize = 100, bestQ = 0, bestIndex = Num 0,
         fallbackQ = 0, fallbackSize = 150, fallbackIndex = Num 0,
         stdout = [OriginalSize 100, Attempt 1 67 (Num 1) 150]\<rparr>)
   \<and> finish (table_codec fallback_table) (example_world 100 None) (example_args 40 95 1)
        (flat orange) 100
        \<lparr>minQ = 40, maxQ = 66, attempt = 2, bestSize = 100, bestQ = 0, bestIndex = Num 0,
         fallbackQ = 0, fallbackSize = 150, fallbackIndex = Num 0,
         stdout = [OriginalSize 100, Attempt 1 67 (Num 1) 150]\<rparr>
     = \<lparr>status = Returned,
        printed = [OriginalSize 100, Attempt 1 67 (Num 1) 150, NoMatchFallback,
                   FinalImage 0 (Num 0) 150, Savings 150 100],
        destination = Written (0 # replicate 119 0)\<rparr>"
proof -
  let ?cd = "table_codec fallback_table"
  let ?w = "example_world 100 None"
  let ?a = "example_args 40 95 1"
  let ?sf = "\<lparr>minQ = 40, maxQ = 66, attempt = 2, bestSize = 100, bestQ = 0,
           bestIndex = Num 0, fallbackQ = 0, fallbackSize = 150,
           fallbackIndex = Num 0,
           stdout = [OriginalSize 100, Attempt 1 67 (Num 1) 150]\<rparr>"
  have norec: "\<not> attempt_records ?cd (two 124) 100 t"
    if "loop_head ?cd (two 124) 100 (Num (9999 / 10000)) 1 (initial_search 40 95 100) t"
      and "attempt t \<le> 1" for t
  proof -
    from single_attempt_heads [OF that(1)] that(2) have "t = initial_search 40 95 100" by auto
    then have "fallbackSize t = 0" by (simp add: initial_search_def)
    then show ?thesis
      by (auto simp: attempt_records_def first_attempt_never_records split: sum.splits)
  qed
  have a: "\<not> bestSize ?sf < 100" by simp
  have b: "\<not> noCopy_flag ?a" by (simp add: example_args_def)
  have c: "\<not> isJpeg ?w (src_arg ?a)" by (simp add: example_world_def)
  from unrecorded_fallback_is_quality_zero [OF fallback_search_1 norec a b c, of "flat orange"]
  show ?thesis
    by (simp add: fallback_search_1 encode_orange [of fallback_table _ 79 0] fallback_table_def
          save_def)
       (simp add: example_world_def example_args_def)
qed

end
